theory Spec2Isabelle
  imports Complex_Main "HOL-Library.AList"
begin

section \<open>JavaScript values\<close>

text \<open>
  The values that flow through \<^verbatim>\<open>app.js\<close>: JSON payloads, option objects, thrown
  errors and cached items. An object is its list of own properties in insertion order.
  Numbers are the finite values a JSON document denotes; where the script computes with
  one, it is first rounded to the Number it is parsed to.
\<close>

datatype jsval =
    JUndefined
  | JNull
  | JBool bool
  | JNum real
  | JStr string
  | JArr "jsval list"
  | JObj "(string \<times> jsval) list"

text \<open>JavaScript's ToBoolean, as used by \<^verbatim>\<open>if (x)\<close> and \<^verbatim>\<open>!x\<close>.\<close>

fun truthy :: "jsval \<Rightarrow> bool" where
  "truthy JUndefined = False"
| "truthy JNull = False"
| "truthy (JBool b) = b"
| "truthy (JNum x) = (x \<noteq> 0)"
| "truthy (JStr s) = (s \<noteq> [])"
| "truthy (JArr _) = True"
| "truthy (JObj _) = True"

text \<open>Property read \<^verbatim>\<open>v.k\<close>: a property that is not there reads as \<^verbatim>\<open>undefined\<close>.\<close>

fun get_prop :: "jsval \<Rightarrow> string \<Rightarrow> jsval" where
  "get_prop (JObj ps) k = (case map_of ps k of Some v \<Rightarrow> v | None \<Rightarrow> JUndefined)"
| "get_prop _ k = JUndefined"

section \<open>AnalyticsEngine: the cache\<close>

text \<open>
  \<^verbatim>\<open>this.cache = new Map()\<close>; each entry is the object \<^verbatim>\<open>{ value, expiry }\<close>.
  Times are milliseconds as \<^verbatim>\<open>Date.now()\<close> returns them, whole numbers whose sums
  and comparisons are exact below 2^53; the current time is an argument of both
  operations.
\<close>

record cache_item =
  item_value :: jsval
  expiry :: int

type_synonym 'k cache = "'k \<rightharpoonup> cache_item"

text \<open>
  \<^verbatim>\<open>setCacheItem(key, value, ttl = 300000)\<close>: the third argument is \<open>None\<close> when the
  caller leaves it out.
\<close>

definition setCacheItem :: "'k \<Rightarrow> jsval \<Rightarrow> int option \<Rightarrow> int \<Rightarrow> 'k cache \<Rightarrow> 'k cache" where
  "setCacheItem key v ttl now c =
     c(key \<mapsto> \<lparr>item_value = v, expiry = now + (case ttl of None \<Rightarrow> 300000 | Some t \<Rightarrow> t)\<rparr>)"

text \<open>
  \<^verbatim>\<open>getCacheItem(key)\<close> returns the value read and the cache as the call leaves it.
  A stored item is an object, hence truthy, so \<^verbatim>\<open>if (!item) return null\<close> fires
  exactly when the key is not in the map.
\<close>

definition getCacheItem :: "'k \<Rightarrow> int \<Rightarrow> 'k cache \<Rightarrow> jsval \<times> 'k cache" where
  "getCacheItem key now c =
     (case c key of
        None \<Rightarrow> (JNull, c)
      | Some item \<Rightarrow>
          if now > expiry item then (JNull, c(key := None))
          else (item_value item, c))"

section \<open>Numbers: IEEE 754 binary64\<close>

text \<open>
  A JavaScript Number is a binary64 value: NaN, or a sign with a magnitude that is zero,
  infinite, or a positive real of the form m * 2^u with m < 2^53 and u >= -1074. The sign
  is \<open>True\<close> for negative values, so both zeros are there.
\<close>

datatype magnitude = Zero | Fin real | Infinity


text \<open>The number of binary digits of a positive integer.\<close>

function bits :: "int \<Rightarrow> int" where
  "bits n = (if n \<le> 0 then 0 else 1 + bits (n div 2))"
  by pat_completeness auto
termination
  by (relation "measure nat") auto

declare bits.simps [simp del]

text \<open>
  The binary exponent of a positive real: the e with 2^e <= x < 2^(e+1), read off the
  digits of the integer part of x, or of 1/x when x < 1.
\<close>

definition expo :: "real \<Rightarrow> int" where
  "expo x =
     (if 1 \<le> x then bits \<lfloor>x\<rfloor> - 1
      else (let k = bits \<lfloor>1 / x\<rfloor>
            in if 1 \<le> x * 2 powi (k - 1) then 1 - k else - k))"

text \<open>Rounding to the nearest integer, a tie going to the even one.\<close>

definition round_even :: "real \<Rightarrow> int" where
  "round_even m =
     (let q = \<lfloor>m\<rfloor>; r = m - of_int q
      in if 1 / 2 < r \<or> (r = 1 / 2 \<and> odd q) then q + 1 else q)"

text \<open>
  Rounding a positive real to the nearest binary64 magnitude, ties to even: 53
  significant bits, units of 2^-1074 below 2^-1022, zero when the result is no unit at
  all, infinite when it reaches 2^1024.
\<close>

definition round_mag :: "real \<Rightarrow> magnitude" where
  "round_mag x =
     (let u = max (expo x - 52) (- 1074);
          y = of_int (round_even (x / 2 powi u)) * 2 powi u
      in if y = 0 then Zero else if 2 powi 1024 \<le> y then Infinity else Fin y)"






section \<open>AnalyticsEngine: calculateUtilizationRate\<close>












section \<open>APIClient\<close>

text \<open>
  What \<^verbatim>\<open>fetch\<close> resolves with, as far as \<^verbatim>\<open>request\<close> reads it: the status, the
  status text, and the outcome of \<^verbatim>\<open>response.json()\<close> (\<open>Inl\<close> the value it rejects
  with, \<open>Inr\<close> the parsed body).
\<close>

record response =
  status :: nat
  statusText :: string
  json :: "jsval + jsval"

text \<open>\<^verbatim>\<open>response.ok\<close>, which the Fetch standard defines as a status from 200 to 299.\<close>

definition ok :: "response \<Rightarrow> bool" where
  "ok r = (200 \<le> status r \<and> status r \<le> 299)"

text \<open>
  The browser around the script. \<open>fetch\<close> is the transport: given the URL and the init
  object it rejects (\<open>Inl\<close>) or resolves with a response; the requests of one cycle
  go to three different URLs, so a function of the URL covers every way a transport can
  answer them. \<open>dom\<close> says whether a render routine, given its name and its data,
  throws in the DOM or the chart library. \<open>clock\<close> is the time \<^verbatim>\<open>new Date()\<close>
  reads.
\<close>

record browser =
  fetch :: "string \<Rightarrow> (string \<times> jsval) list \<Rightarrow> jsval + response"
  dom :: "string \<Rightarrow> jsval \<Rightarrow> jsval option"
  clock :: int

text \<open>What the script does that can be seen from outside, in the order it happens.\<close>

datatype event =
    FetchCall string "(string \<times> jsval) list"
  | Settled string
  | ConsoleLog string
  | ConsoleError string jsval
  | Render string jsval
  | Notify string string

text \<open>\<^verbatim>\<open>HealthWorkforceApp.data\<close> (the fields that are written), and the events so far.\<close>

record app =
  dashboard :: jsval
  lastUpdated :: "int option"
  trace :: "event list"

definition emit :: "event \<Rightarrow> app \<Rightarrow> app" where
  "emit e s = s\<lparr>trace := trace s @ [e]\<rparr>"



text \<open>Decimal digits of a number, as a template literal prints it.\<close>

fun string_of_nat :: "nat \<Rightarrow> string" where
  "string_of_nat n =
     (if n < 10 then [''0123456789'' ! n]
      else string_of_nat (n div 10) @ [''0123456789'' ! (n mod 10)])"

declare string_of_nat.simps [simp del]

text \<open>
  \<^verbatim>\<open>new Error(message)\<close>: an object whose \<^verbatim>\<open>name\<close> reads "Error" and whose
  \<^verbatim>\<open>message\<close> is the argument; it has no other property that the script or a caller
  could read a status from.
\<close>

definition new_Error :: "string \<Rightarrow> jsval" where
  "new_Error msg = JObj [(''name'', JStr ''Error''), (''message'', JStr msg)]"

text \<open>
  Object spread \<^verbatim>\<open>{ ...base, ...opts }\<close>: each property of \<open>opts\<close> in turn replaces the
  value of a key that is there or is added at the end.
\<close>

definition spread :: "(string \<times> jsval) list \<Rightarrow> (string \<times> jsval) list \<Rightarrow> (string \<times> jsval) list" where
  "spread base opts = fold (\<lambda>(k, v). AList.update k v) opts base"

record api_client =
  baseURL :: string
  headers :: jsval

definition APIClient :: "string \<Rightarrow> api_client" where
  "APIClient base =
     \<lparr>baseURL = base, headers = JObj [(''Content-Type'', JStr ''application/json'')]\<rparr>"

text \<open>The second argument of \<^verbatim>\<open>fetch\<close>: \<^verbatim>\<open>{ headers: this.headers, ...options }\<close>.\<close>

definition fetch_init :: "api_client \<Rightarrow> (string \<times> jsval) list \<Rightarrow> (string \<times> jsval) list" where
  "fetch_init api options = spread [(''headers'', headers api)] options"

text \<open>
  The body of the \<^verbatim>\<open>try\<close> block of \<^verbatim>\<open>request\<close> once the URL and the init object are
  built: await \<^verbatim>\<open>fetch\<close>, throw on \<^verbatim>\<open>!response.ok\<close>, await \<^verbatim>\<open>response.json()\<close>.
\<close>

definition attempt :: "browser \<Rightarrow> string \<Rightarrow> (string \<times> jsval) list \<Rightarrow> jsval + jsval" where
  "attempt b url init =
     (case fetch b url init of
        Inl e \<Rightarrow> Inl e
      | Inr r \<Rightarrow>
          if \<not> ok r
          then Inl (new_Error (''HTTP '' @ string_of_nat (status r) @ '': '' @ statusText r))
          else json r)"

text \<open>
  \<^verbatim>\<open>async request(endpoint, options = {})\<close>; \<open>None\<close> is the call without options. The
  \<^verbatim>\<open>catch\<close> logs the error with the endpoint and throws the same error again.
  \<open>Settled\<close> marks the moment the promise returned by \<^verbatim>\<open>request\<close> settles.
\<close>

definition request ::
  "browser \<Rightarrow> api_client \<Rightarrow> string \<Rightarrow> (string \<times> jsval) list option
     \<Rightarrow> app \<Rightarrow> (jsval + jsval) \<times> app" where
  "request b api endpoint options s =
     (let url = baseURL api @ endpoint;
          init = fetch_init api (case options of None \<Rightarrow> [] | Some opts \<Rightarrow> opts);
          s1 = emit (FetchCall url init) s
      in case attempt b url init of
           Inl e \<Rightarrow>
             (Inl e, emit (Settled url)
                       (emit (ConsoleError (''API Error ('' @ endpoint @ ''):'') e) s1))
         | Inr v \<Rightarrow> (Inr v, emit (Settled url) s1))"






section \<open>HealthWorkforceApp: one refresh cycle\<close>









text \<open>What a cycle added to the trace, and two views of it.\<close>

definition events_since :: "app \<Rightarrow> app \<Rightarrow> event list" where
  "events_since s s' = drop (length (trace s)) (trace s')"

fun fetched :: "event list \<Rightarrow> string list" where
  "fetched [] = []"
| "fetched (FetchCall url init # es) = url # fetched es"
| "fetched (_ # es) = fetched es"

fun notifications :: "event list \<Rightarrow> (string \<times> string) list" where
  "notifications [] = []"
| "notifications (Notify kind message # es) = (kind, message) # notifications es"
| "notifications (_ # es) = notifications es"

fun network :: "event list \<Rightarrow> event list" where
  "network [] = []"
| "network (FetchCall url init # es) = FetchCall url init # network es"
| "network (Settled url # es) = Settled url # network es"
| "network (_ # es) = network es"

section \<open>Vocabulary for the statements\<close>

text \<open>
  The three URLs a cycle asks for, as the accessors build them from the default
  arguments and the sample region, category and horizon.
\<close>

definition dashboard_url :: "api_client \<Rightarrow> string" where
  "dashboard_url api = baseURL api @ ''/reports/executive-dashboard?language=en''"

definition training_url :: "api_client \<Rightarrow> string" where
  "training_url api = baseURL api @ ''/training/capacity?years=5''"

definition projections_url :: "api_client \<Rightarrow> string" where
  "projections_url api = baseURL api @ ''/workforce/projections/1/1?years=5''"

text \<open>
  A render routine runs only on a truthy payload: \<open>rendered\<close> is what it adds to the
  trace when it does not throw, \<open>throws\<close> is the error it throws, if any.
\<close>

definition rendered :: "string \<Rightarrow> jsval \<Rightarrow> event list" where
  "rendered name v = (if truthy v then [Render name v] else [])"


text \<open>
  The application state at start-up, and mock transports: one that answers every request
  with a given status, one that is down at a single URL, one that cannot be reached, one
  whose body does not parse. With a mock transport the render routines never throw.
\<close>

definition initial_app :: app where
  "initial_app = \<lparr>dashboard = JObj [], lastUpdated = None, trace = []\<rparr>"

definition http_reply :: "nat \<Rightarrow> string \<Rightarrow> jsval \<Rightarrow> jsval + response" where
  "http_reply code text body = Inr \<lparr>status = code, statusText = text, json = Inr body\<rparr>"

definition mock_browser :: "(string \<Rightarrow> jsval + response) \<Rightarrow> browser" where
  "mock_browser transport =
     \<lparr>fetch = (\<lambda>url init. transport url), dom = (\<lambda>name v. None), clock = 0\<rparr>"

definition always_500 :: "string \<Rightarrow> jsval + response" where
  "always_500 url = http_reply 500 ''Internal Server Error'' JNull"

definition all_up :: "string \<Rightarrow> jsval + response" where
  "all_up url = http_reply 200 ''OK'' (JObj [(''kpis'', JObj [])])"


definition unreachable :: "string \<Rightarrow> jsval + response" where
  "unreachable url = Inl (JObj [(''name'', JStr ''TypeError''), (''message'', JStr ''Failed to fetch'')])"

definition bad_json :: "string \<Rightarrow> jsval + response" where
  "bad_json url = Inr \<lparr>status = 200, statusText = ''OK'',
     json = Inl (JObj [(''name'', JStr ''SyntaxError''), (''message'', JStr ''Unexpected token'')])\<rparr>"



section \<open>The cache: set, get and expiry\<close>

lemma getCacheItem_absent: "c k = None \<Longrightarrow> getCacheItem k now c = (JNull, c)"
  by (simp add: getCacheItem_def)

lemma getCacheItem_live:
  "c k = Some e \<Longrightarrow> now \<le> expiry e \<Longrightarrow> getCacheItem k now c = (item_value e, c)"
  by (simp add: getCacheItem_def)

lemma getCacheItem_expired:
  "c k = Some e \<Longrightarrow> expiry e < now \<Longrightarrow> getCacheItem k now c = (JNull, c(k := None))"
  by (simp add: getCacheItem_def)

lemma setCacheItem_same:
  "setCacheItem k v ttl now c k
     = Some \<lparr>item_value = v, expiry = now + (case ttl of None \<Rightarrow> 300000 | Some t \<Rightarrow> t)\<rparr>"
  by (simp add: setCacheItem_def)

lemma setCacheItem_other: "k' \<noteq> k \<Longrightarrow> setCacheItem k v ttl now c k' = c k'"
  by (simp add: setCacheItem_def)

text \<open>
  C5. For every key, value and ttl > 0, \<^verbatim>\<open>setCacheItem(k, v, ttl)\<close> followed at the same
  instant by \<^verbatim>\<open>getCacheItem(k)\<close> returns v (and leaves the entry in place). The entry
  written is \<^verbatim>\<open>{value: v, expiry: now + ttl}\<close> whatever was stored under k before, and
  a call without ttl uses 300000 ms.
\<close>

theorem setCacheItem_then_get:
  "0 < ttl \<Longrightarrow>
     getCacheItem k now (setCacheItem k v (Some ttl) now c)
       = (v, setCacheItem k v (Some ttl) now c)
   \<and> setCacheItem k v (Some ttl) now c k = Some \<lparr>item_value = v, expiry = now + ttl\<rparr>
   \<and> setCacheItem k v None now c k = Some \<lparr>item_value = v, expiry = now + 300000\<rparr>"
proof -
  assume ttl: "0 < ttl"
  let ?c = "setCacheItem k v (Some ttl) now c"
  have stored: "?c k = Some \<lparr>item_value = v, expiry = now + ttl\<rparr>"
    by (simp add: setCacheItem_same)
  have "now \<le> expiry \<lparr>item_value = v, expiry = now + ttl\<rparr>"
    using ttl by simp
  with stored have "getCacheItem k now ?c = (v, ?c)"
    by (simp add: getCacheItem_live)
  moreover have "setCacheItem k v None now c k = Some \<lparr>item_value = v, expiry = now + 300000\<rparr>"
    by (simp add: setCacheItem_same)
  ultimately show ?thesis using stored by blast
qed

theorem setCacheItem_then_get_witness:
  "getCacheItem ''kpi'' 1000 (setCacheItem ''kpi'' (JNum 42) (Some 60000) 1000
       (Map.empty(''kpi'' \<mapsto> \<lparr>item_value = JStr ''old'', expiry = 7\<rparr>)))
     = (JNum 42, setCacheItem ''kpi'' (JNum 42) (Some 60000) 1000
       (Map.empty(''kpi'' \<mapsto> \<lparr>item_value = JStr ''old'', expiry = 7\<rparr>)))
   \<and> setCacheItem ''kpi'' (JNum 42) (Some 60000) 1000
       (Map.empty(''kpi'' \<mapsto> \<lparr>item_value = JStr ''old'', expiry = 7\<rparr>)) ''kpi''
     = Some \<lparr>item_value = JNum 42, expiry = 61000\<rparr>"
  using setCacheItem_then_get [of 60000 "''kpi''" 1000 "JNum 42"
      "Map.empty(''kpi'' \<mapsto> \<lparr>item_value = JStr ''old'', expiry = 7\<rparr>)"]
  by simp

text \<open>
  C6. \<^verbatim>\<open>getCacheItem(k)\<close> returns the stored value when an entry for k is present and
  now <= expiry, leaving the store as it is. With no entry it returns null. With an entry
  whose expiry has passed it returns null and deletes the entry, so that the key is no
  longer in the store and a second lookup finds nothing to return or delete.
\<close>

theorem getCacheItem_cases:
  "(c k = Some e \<and> now \<le> expiry e \<longrightarrow> getCacheItem k now c = (item_value e, c))
   \<and> (c k = None \<longrightarrow> getCacheItem k now c = (JNull, c))
   \<and> (c k = Some e \<and> expiry e < now \<longrightarrow>
        getCacheItem k now c = (JNull, c(k := None))
        \<and> snd (getCacheItem k now c) k = None
        \<and> getCacheItem k later (snd (getCacheItem k now c)) = (JNull, c(k := None)))"
proof (intro conjI impI)
  assume "c k = Some e \<and> now \<le> expiry e"
  then show "getCacheItem k now c = (item_value e, c)"
    by (simp add: getCacheItem_live)
next
  assume "c k = None"
  then show "getCacheItem k now c = (JNull, c)"
    by (rule getCacheItem_absent)
next
  assume a: "c k = Some e \<and> expiry e < now"
  then show gone: "getCacheItem k now c = (JNull, c(k := None))"
    by (simp add: getCacheItem_expired)
  show "snd (getCacheItem k now c) k = None"
    by (simp add: gone)
  show "getCacheItem k later (snd (getCacheItem k now c)) = (JNull, c(k := None))"
    by (simp add: gone getCacheItem_absent)
qed

theorem getCacheItem_cases_witness:
  "getCacheItem ''a'' 10 (Map.empty(''a'' \<mapsto> \<lparr>item_value = JBool True, expiry = 10\<rparr>))
     = (JBool True, Map.empty(''a'' \<mapsto> \<lparr>item_value = JBool True, expiry = 10\<rparr>))
   \<and> getCacheItem ''a'' 10 (Map.empty :: string cache) = (JNull, Map.empty)
   \<and> getCacheItem ''a'' 11 (Map.empty(''a'' \<mapsto> \<lparr>item_value = JBool True, expiry = 10\<rparr>))
     = (JNull, Map.empty)"
  using getCacheItem_cases [of "Map.empty(''a'' \<mapsto> \<lparr>item_value = JBool True, expiry = 10\<rparr>)"
      "''a''" "\<lparr>item_value = JBool True, expiry = 10\<rparr>" 10 0]
    getCacheItem_cases [of "Map.empty :: string cache" "''a''"
      "\<lparr>item_value = JBool True, expiry = 10\<rparr>" 10 0]
    getCacheItem_cases [of "Map.empty(''a'' \<mapsto> \<lparr>item_value = JBool True, expiry = 10\<rparr>)"
      "''a''" "\<lparr>item_value = JBool True, expiry = 10\<rparr>" 11 0]
  by simp

text \<open>
  C7, as stated: an entry is visible only while now < expiry. At the instant
  now = expiry the lookup still returns the value: an entry written at time 0 with a
  ttl of 5 is read back at time 5, although 5 < 5 is false.
\<close>

theorem visible_at_expiry_counterexample:
  "fst (getCacheItem ''k'' 5 (setCacheItem ''k'' (JStr ''v'') (Some 5) 0 Map.empty)) = JStr ''v''
   \<and> expiry (the (setCacheItem ''k'' (JStr ''v'') (Some 5) 0 Map.empty ''k'')) = 5
   \<and> \<not> (5 :: int) < 5"
  by (simp add: getCacheItem_def setCacheItem_def)

text \<open>
  C7, amended: the stored value is observable through \<^verbatim>\<open>getCacheItem\<close> exactly at the
  times now <= expiry, the instant of expiry included; a lookup at any later time
  returns null and is what removes the entry.
\<close>

theorem visible_until_expiry:
  "c k = Some e \<Longrightarrow>
     getCacheItem k now c = (if now \<le> expiry e then (item_value e, c) else (JNull, c(k := None)))"
  by (simp add: getCacheItem_def)

theorem visible_until_expiry_witness:
  "getCacheItem ''k'' 5 (Map.empty(''k'' \<mapsto> \<lparr>item_value = JStr ''v'', expiry = 5\<rparr>))
     = (JStr ''v'', Map.empty(''k'' \<mapsto> \<lparr>item_value = JStr ''v'', expiry = 5\<rparr>))
   \<and> getCacheItem ''k'' 6 (Map.empty(''k'' \<mapsto> \<lparr>item_value = JStr ''v'', expiry = 5\<rparr>))
     = (JNull, Map.empty)"
  using visible_until_expiry [of "Map.empty(''k'' \<mapsto> \<lparr>item_value = JStr ''v'', expiry = 5\<rparr>)"
      "''k''" "\<lparr>item_value = JStr ''v'', expiry = 5\<rparr>" 5]
    visible_until_expiry [of "Map.empty(''k'' \<mapsto> \<lparr>item_value = JStr ''v'', expiry = 5\<rparr>)"
      "''k''" "\<lparr>item_value = JStr ''v'', expiry = 5\<rparr>" 6]
  by simp

text \<open>
  C10. The value returned for a missing or expired key is null, and a null stored with
  \<^verbatim>\<open>setCacheItem\<close> is read back as null at every time, before or after its expiry. So
  for every key the value returned for a cached null equals the one returned for a key
  that was never set and the one returned for an expired entry.
\<close>

theorem cached_null_indistinguishable:
  "fst (getCacheItem k now (setCacheItem k JNull ttl t0 c)) = JNull
   \<and> fst (getCacheItem k now (c(k := None))) = JNull
   \<and> fst (getCacheItem k (t0 + t + 1) (setCacheItem k v (Some t) t0 c)) = JNull"
  by (simp add: getCacheItem_def setCacheItem_def)

theorem cached_null_indistinguishable_witness:
  "fst (getCacheItem ''k'' 3 (setCacheItem ''k'' JNull None 0 Map.empty)) = JNull
   \<and> fst (getCacheItem ''k'' 3 (Map.empty :: string cache)) = JNull
   \<and> fst (getCacheItem ''k'' 9 (setCacheItem ''k'' (JNum 1) (Some 8) 0 Map.empty)) = JNull"
  using cached_null_indistinguishable [of "''k''" 3 None 0 Map.empty]
    cached_null_indistinguishable [of "''k''" 3 None 0 Map.empty 8 "JNum 1"]
  by (simp add: setCacheItem_def getCacheItem_def)

section \<open>calculateUtilizationRate: rounding, the guard and the error path\<close>

lemma bits_bounds:
  "0 < n \<Longrightarrow> 2 ^ nat (bits n - 1) \<le> n \<and> n < 2 ^ nat (bits n) \<and> 1 \<le> bits n"
proof (induction n rule: bits.induct)
  case (1 n)
  then have pos: "0 < n" by simp
  have b: "bits n = 1 + bits (n div 2)"
    using pos by (simp add: bits.simps [of n])
  show ?case
  proof (cases "n = 1")
    case True
    then show ?thesis by (simp add: bits.simps)
  next
    case False
    with pos have m: "0 < n div 2" by linarith
    from 1(1) pos m have ih: "2 ^ nat (bits (n div 2) - 1) \<le> n div 2"
      "n div 2 < 2 ^ nat (bits (n div 2))" "1 \<le> bits (n div 2)"
      by simp_all
    have e1: "nat (bits n - 1) = Suc (nat (bits (n div 2) - 1))"
      using b ih(3) by simp
    have e2: "nat (bits n) = Suc (nat (bits (n div 2)))"
      using b ih(3) by simp
    have "2 ^ nat (bits n - 1) \<le> 2 * (n div 2)"
      using ih(1) by (simp add: e1)
    moreover have "2 * (n div 2) \<le> n" by simp
    moreover have "n < 2 * (n div 2 + 1)" by presburger
    moreover have "2 * (n div 2 + 1) \<le> 2 ^ nat (bits n)"
      using ih(2) by (simp add: e2)
    ultimately show ?thesis using b ih(3) by linarith
  qed
qed

lemma round_even_nearest: "\<bar>of_int (round_even m) - m\<bar> \<le> 1 / 2"
  unfolding round_even_def Let_def by (auto; linarith)

lemma expo_bounds:
  assumes "0 < x"
  shows "2 powi expo x \<le> x \<and> x < 2 powi (expo x + 1)"
proof (cases "1 \<le> x")
  case True
  then have n: "0 < \<lfloor>x\<rfloor>" by linarith
  note bb = bits_bounds [OF n]
  have e: "expo x = bits \<lfloor>x\<rfloor> - 1" using True by (simp add: expo_def)
  have p1: "(2::real) powi (bits \<lfloor>x\<rfloor> - 1) = 2 ^ nat (bits \<lfloor>x\<rfloor> - 1)"
    using bb by (simp add: power_int_def)
  have p2: "(2::real) powi (bits \<lfloor>x\<rfloor>) = 2 ^ nat (bits \<lfloor>x\<rfloor>)"
    using bb by (simp add: power_int_def)
  have f1: "(2::real) ^ nat (bits \<lfloor>x\<rfloor> - 1) \<le> of_int \<lfloor>x\<rfloor>"
    using bb by (metis of_int_le_iff of_int_numeral of_int_power)
  have f2: "of_int \<lfloor>x\<rfloor> \<le> x" by simp
  have f3: "x < of_int (\<lfloor>x\<rfloor> + 1)" by linarith
  have f4: "of_int (\<lfloor>x\<rfloor> + 1) \<le> (2::real) ^ nat (bits \<lfloor>x\<rfloor>)"
  proof -
    from bb have "\<lfloor>x\<rfloor> + 1 \<le> 2 ^ nat (bits \<lfloor>x\<rfloor>)" by linarith
    then show ?thesis by (metis of_int_le_iff of_int_numeral of_int_power)
  qed
  have g1: "2 powi expo x = (2::real) ^ nat (bits \<lfloor>x\<rfloor> - 1)"
    using p1 by (simp only: e)
  have g2: "2 powi (expo x + 1) = (2::real) ^ nat (bits \<lfloor>x\<rfloor>)"
    using p2 by (simp add: e)
  from f1 f2 f3 f4 show ?thesis unfolding g1 g2 by linarith
next
  case False
  with assms have x: "0 < x" "x < 1" by simp_all
  define y where "y = 1 / x"
  define k where "k = bits \<lfloor>y\<rfloor>"
  from x have y: "1 < y" by (simp add: y_def)
  then have n: "0 < \<lfloor>y\<rfloor>" by linarith
  note bb = bits_bounds [OF n]
  have k1: "1 \<le> k" using bb by (simp add: k_def)
  have lo: "(2::real) ^ nat (k - 1) \<le> y"
  proof -
    have "(2::real) ^ nat (k - 1) \<le> of_int \<lfloor>y\<rfloor>"
      using bb unfolding k_def by (metis of_int_le_iff of_int_numeral of_int_power)
    then show ?thesis by linarith
  qed
  have hi: "y < (2::real) ^ nat k"
  proof -
    from bb have "\<lfloor>y\<rfloor> + 1 \<le> 2 ^ nat k" unfolding k_def by linarith
    then have "of_int (\<lfloor>y\<rfloor> + 1) \<le> (2::real) ^ nat k"
      by (metis of_int_le_iff of_int_numeral of_int_power)
    moreover have "y < of_int (\<lfloor>y\<rfloor> + 1)" by linarith
    ultimately show ?thesis by linarith
  qed
  have q1: "(2::real) powi (1 - k) = 1 / 2 ^ nat (k - 1)"
    using k1 by (cases "k = 1") (simp_all add: power_int_def field_simps)
  have q2: "(2::real) powi (- k) = 1 / 2 ^ nat k"
    using k1 by (simp add: power_int_def field_simps)
  have q3: "(2::real) powi (k - 1) = 2 ^ nat (k - 1)"
    using k1 by (simp add: power_int_def)
  have xlo: "1 / 2 ^ nat k < x"
    using hi x y by (simp add: y_def field_simps)
  have xhi: "x \<le> 1 / 2 ^ nat (k - 1)"
    using lo x y by (simp add: y_def field_simps)
  show ?thesis
  proof (cases "1 \<le> x * 2 powi (k - 1)")
    case True
    then have e: "expo x = 1 - k"
      using False by (simp add: expo_def Let_def k_def y_def)
    have a: "1 / 2 ^ nat (k - 1) \<le> x"
      using True by (simp add: q3 field_simps)
    have "(2::real) powi (1 - k) < 2 powi (1 - k + 1)"
      by (rule power_int_strict_increasing) simp_all
    with a xhi show ?thesis by (simp add: e q1)
  next
    case c: False
    then have e: "expo x = - k"
      using False by (simp add: expo_def Let_def k_def y_def)
    have "x < 1 / 2 ^ nat (k - 1)"
      using c by (simp add: q3 field_simps not_le)
    then have "x < 2 powi (- k + 1)" using q1 by (simp add: algebra_simps)
    with xlo show ?thesis by (simp add: e q2)
  qed
qed

lemma round_mag_error:
  assumes "0 < x" and "round_mag x = Fin y"
  shows "\<bar>y - x\<bar> \<le> 2 powi (max (expo x - 52) (- 1074)) / 2"
proof -
  define u where "u = max (expo x - 52) (- 1074)"
  define p :: real where "p = 2 powi u"
  have p: "0 < p" by (simp add: p_def)
  from assms(2) have y: "y = of_int (round_even (x / p)) * p"
    by (simp add: round_mag_def Let_def u_def p_def split: if_splits)
  have "\<bar>y - x\<bar> = \<bar>of_int (round_even (x / p)) - x / p\<bar> * p"
    using p by (simp add: y abs_mult [symmetric] field_simps)
  also have "\<dots> \<le> 1 / 2 * p"
    using round_even_nearest [of "x / p"] p by (simp add: mult_right_mono)
  finally show ?thesis by (simp add: p_def u_def)
qed

lemma round_even_nonneg: "0 \<le> m \<Longrightarrow> 0 \<le> round_even m"
  by (simp add: round_even_def Let_def)

lemma round_mag_positive:
  assumes "0 < x" and "round_mag x = Fin y"
  shows "0 < y"
proof -
  define p :: real where "p = 2 powi (max (expo x - 52) (- 1074))"
  have p: "0 < p" by (simp add: p_def)
  from assms(2) have "y = of_int (round_even (x / p)) * p \<and> y \<noteq> 0"
    by (auto simp: round_mag_def Let_def p_def split: if_splits)
  then have y: "y = of_int (round_even (x / p)) * p" and nz: "y \<noteq> 0"
    by blast+
  have "0 \<le> round_even (x / p)"
    using assms(1) p by (intro round_even_nonneg) simp
  then have "0 \<le> y" using p by (simp add: y)
  with nz show ?thesis by simp
qed






section \<open>APIClient.request: failures and headers\<close>

lemma trace_emit [simp]: "trace (emit e s) = trace s @ [e]"
  by (simp add: emit_def)

lemma events_since_append: "trace s' = trace s @ es \<Longrightarrow> events_since s s' = es"
  by (simp add: events_since_def)

lemma string_of_nat_500: "string_of_nat 500 = ''500''"
  by (simp add: string_of_nat.simps)

lemma request_fst:
  "fst (request b api ep opts s)
     = attempt b (baseURL api @ ep) (fetch_init api (case opts of None \<Rightarrow> [] | Some x \<Rightarrow> x))"
  by (simp add: request_def Let_def split: sum.splits)

lemma request_events:
  "events_since s (snd (request b api ep opts s)) =
     (case attempt b (baseURL api @ ep) (fetch_init api (case opts of None \<Rightarrow> [] | Some x \<Rightarrow> x)) of
        Inl e \<Rightarrow> [FetchCall (baseURL api @ ep) (fetch_init api (case opts of None \<Rightarrow> [] | Some x \<Rightarrow> x)),
                  ConsoleError (''API Error ('' @ ep @ ''):'') e, Settled (baseURL api @ ep)]
      | Inr v \<Rightarrow> [FetchCall (baseURL api @ ep) (fetch_init api (case opts of None \<Rightarrow> [] | Some x \<Rightarrow> x)),
                  Settled (baseURL api @ ep)])"
  by (simp add: request_def Let_def events_since_def split: sum.splits)

text \<open>
  C2, as stated: a response with status 500 makes \<^verbatim>\<open>request\<close> fail with a RequestError
  whose status equals 500. The value thrown is the plain \<^verbatim>\<open>Error\<close> built from the
  message "HTTP 500: Internal Server Error": its name is "Error" and reading its
  \<^verbatim>\<open>status\<close> gives \<^verbatim>\<open>undefined\<close>, not 500.
\<close>

theorem request_500_counterexample:
  "fst (request (mock_browser always_500) (APIClient ''http://h/api/v1'') ''/training/capacity?years=5''
         None initial_app)
     = Inl (JObj [(''name'', JStr ''Error''), (''message'', JStr ''HTTP 500: Internal Server Error'')])
   \<and> get_prop (JObj [(''name'', JStr ''Error''), (''message'', JStr ''HTTP 500: Internal Server Error'')])
        ''status'' = JUndefined
   \<and> get_prop (JObj [(''name'', JStr ''Error''), (''message'', JStr ''HTTP 500: Internal Server Error'')])
        ''status'' \<noteq> JNum 500"
  by (simp add: request_fst attempt_def mock_browser_def always_500_def http_reply_def ok_def
      string_of_nat_500 new_Error_def)

text \<open>
  C2, amended: for every call to \<^verbatim>\<open>request\<close>, a response whose status is outside
  200..299 makes the call fail with a plain Error whose message is the text
  "HTTP <status>: <statusText>" (the status is carried inside the message only); a
  rejection of \<^verbatim>\<open>response.json()\<close> or of \<^verbatim>\<open>fetch\<close> makes it fail with that very
  value. Every failure is logged once with the endpoint and thrown again unchanged, after
  a single call of the transport.
\<close>

theorem request_failures:
  "(fetch b (baseURL api @ ep) (fetch_init api (case opts of None \<Rightarrow> [] | Some x \<Rightarrow> x)) = Inr r
      \<and> \<not> ok r \<longrightarrow>
      fst (request b api ep opts s)
        = Inl (new_Error (''HTTP '' @ string_of_nat (status r) @ '': '' @ statusText r)))
   \<and> (fetch b (baseURL api @ ep) (fetch_init api (case opts of None \<Rightarrow> [] | Some x \<Rightarrow> x)) = Inr r
      \<and> ok r \<and> json r = Inl e \<longrightarrow> fst (request b api ep opts s) = Inl e)
   \<and> (fetch b (baseURL api @ ep) (fetch_init api (case opts of None \<Rightarrow> [] | Some x \<Rightarrow> x)) = Inl e
      \<longrightarrow> fst (request b api ep opts s) = Inl e)
   \<and> (fst (request b api ep opts s) = Inl e \<longrightarrow>
        events_since s (snd (request b api ep opts s))
          = [FetchCall (baseURL api @ ep) (fetch_init api (case opts of None \<Rightarrow> [] | Some x \<Rightarrow> x)),
             ConsoleError (''API Error ('' @ ep @ ''):'') e,
             Settled (baseURL api @ ep)])"
proof (intro conjI impI)
  assume "fetch b (baseURL api @ ep) (fetch_init api (case opts of None \<Rightarrow> [] | Some x \<Rightarrow> x)) = Inr r \<and> \<not> ok r"
  then show "fst (request b api ep opts s)
        = Inl (new_Error (''HTTP '' @ string_of_nat (status r) @ '': '' @ statusText r))"
    by (simp add: request_fst attempt_def)
next
  assume "fetch b (baseURL api @ ep) (fetch_init api (case opts of None \<Rightarrow> [] | Some x \<Rightarrow> x)) = Inr r
      \<and> ok r \<and> json r = Inl e"
  then show "fst (request b api ep opts s) = Inl e"
    by (simp add: request_fst attempt_def)
next
  assume "fetch b (baseURL api @ ep) (fetch_init api (case opts of None \<Rightarrow> [] | Some x \<Rightarrow> x)) = Inl e"
  then show "fst (request b api ep opts s) = Inl e"
    by (simp add: request_fst attempt_def)
next
  assume "fst (request b api ep opts s) = Inl e"
  then show "events_since s (snd (request b api ep opts s))
          = [FetchCall (baseURL api @ ep) (fetch_init api (case opts of None \<Rightarrow> [] | Some x \<Rightarrow> x)),
             ConsoleError (''API Error ('' @ ep @ ''):'') e,
             Settled (baseURL api @ ep)]"
    by (simp add: request_fst request_events)
qed

theorem request_failures_witness:
  "fst (request (mock_browser always_500) (APIClient ''http://h/api/v1'') ''/training/capacity?years=5''
         None initial_app)
     = Inl (new_Error ''HTTP 500: Internal Server Error'')
   \<and> fst (request (mock_browser bad_json) (APIClient ''http://h/api/v1'') ''/training/capacity?years=5''
         None initial_app)
     = Inl (JObj [(''name'', JStr ''SyntaxError''), (''message'', JStr ''Unexpected token'')])
   \<and> fst (request (mock_browser unreachable) (APIClient ''http://h/api/v1'') ''/training/capacity?years=5''
         None initial_app)
     = Inl (JObj [(''name'', JStr ''TypeError''), (''message'', JStr ''Failed to fetch'')])
   \<and> events_since initial_app (snd (request (mock_browser unreachable) (APIClient ''http://h/api/v1'')
         ''/training/capacity?years=5'' None initial_app))
     = [FetchCall ''http://h/api/v1/training/capacity?years=5''
          [(''headers'', JObj [(''Content-Type'', JStr ''application/json'')])],
        ConsoleError ''API Error (/training/capacity?years=5):''
          (JObj [(''name'', JStr ''TypeError''), (''message'', JStr ''Failed to fetch'')]),
        Settled ''http://h/api/v1/training/capacity?years=5'']"
  using
    request_failures [of "mock_browser always_500" "APIClient ''http://h/api/v1''"
      "''/training/capacity?years=5''" None
      "\<lparr>status = 500, statusText = ''Internal Server Error'', json = Inr JNull\<rparr>"
      initial_app "JNull"]
    request_failures [of "mock_browser bad_json" "APIClient ''http://h/api/v1''"
      "''/training/capacity?years=5''" None
      "\<lparr>status = 200, statusText = ''OK'',
        json = Inl (JObj [(''name'', JStr ''SyntaxError''), (''message'', JStr ''Unexpected token'')])\<rparr>"
      initial_app "JObj [(''name'', JStr ''SyntaxError''), (''message'', JStr ''Unexpected token'')]"]
    request_failures [of "mock_browser unreachable" "APIClient ''http://h/api/v1''"
      "''/training/capacity?years=5''" None
      "\<lparr>status = 0, statusText = [], json = Inr JNull\<rparr>"
      initial_app "JObj [(''name'', JStr ''TypeError''), (''message'', JStr ''Failed to fetch'')]"]
  by (simp add: mock_browser_def always_500_def bad_json_def unreachable_def http_reply_def ok_def
      string_of_nat_500 APIClient_def fetch_init_def spread_def)

lemma map_of_rev_distinct:
  "distinct (map fst xs) \<Longrightarrow> map_of (rev xs) k = map_of xs k"
proof (induction xs arbitrary: k)
  case Nil
  then show ?case by simp
next
  case (Cons x xs)
  obtain a v where x: "x = (a, v)" by (cases x)
  from Cons.prems x have notin: "map_of xs a = None" and d: "distinct (map fst xs)"
    by (auto simp: map_of_eq_None_iff)
  show ?case
  proof (cases "k = a")
    case True
    then show ?thesis
      using notin x by (simp add: map_add_def Cons.IH [OF d])
  next
    case False
    then show ?thesis
      using x by (simp add: map_add_def Cons.IH [OF d] split: option.splits)
  qed
qed

lemma map_of_spread:
  "map_of (spread base opts) k
     = (case map_of (rev opts) k of Some v \<Rightarrow> Some v | None \<Rightarrow> map_of base k)"
  unfolding spread_def
  by (induction opts arbitrary: base) (auto simp: update_conv' split: option.splits)

text \<open>
  C3, as stated: with per-call headers the request carries the default Content-Type
  merged with them. A call with the option \<^verbatim>\<open>headers: {Authorization: "Bearer t"}\<close> hands
  \<^verbatim>\<open>fetch\<close> exactly those headers: Content-Type is gone.
\<close>

theorem per_call_headers_counterexample:
  "events_since initial_app (snd (request (mock_browser all_up) (APIClient ''http://h/api/v1'')
       ''/training/capacity?years=5''
       (Some [(''headers'', JObj [(''Authorization'', JStr ''Bearer t'')])]) initial_app))
     = [FetchCall ''http://h/api/v1/training/capacity?years=5''
          [(''headers'', JObj [(''Authorization'', JStr ''Bearer t'')])],
        Settled ''http://h/api/v1/training/capacity?years=5'']
   \<and> get_prop (JObj [(''Authorization'', JStr ''Bearer t'')]) ''Content-Type'' = JUndefined"
  by (simp add: request_events attempt_def mock_browser_def all_up_def http_reply_def ok_def
      APIClient_def fetch_init_def spread_def)

text \<open>
  C3, amended: the init object handed to \<^verbatim>\<open>fetch\<close> is \<^verbatim>\<open>{headers: this.headers}\<close>
  overwritten key by key by the per-call options. Options without a \<^verbatim>\<open>headers\<close> key
  leave the default header Content-Type: application/json in place; a per-call
  \<^verbatim>\<open>headers\<close> option replaces the default headers object as a whole.
\<close>

theorem request_init_headers:
  "distinct (map fst opts) \<Longrightarrow>
     take 1 (events_since s (snd (request b (APIClient base) ep (Some opts) s)))
       = [FetchCall (base @ ep) (fetch_init (APIClient base) opts)]
     \<and> map_of (fetch_init (APIClient base) opts) ''headers''
       = Some (case map_of opts ''headers'' of
                 None \<Rightarrow> JObj [(''Content-Type'', JStr ''application/json'')]
               | Some h \<Rightarrow> h)"
proof -
  assume d: "distinct (map fst opts)"
  have "take 1 (events_since s (snd (request b (APIClient base) ep (Some opts) s)))
       = [FetchCall (base @ ep) (fetch_init (APIClient base) opts)]"
    by (simp add: request_events APIClient_def split: sum.splits)
  moreover have "map_of (fetch_init (APIClient base) opts) ''headers''
       = Some (case map_of opts ''headers'' of
                 None \<Rightarrow> JObj [(''Content-Type'', JStr ''application/json'')]
               | Some h \<Rightarrow> h)"
    by (simp add: fetch_init_def map_of_spread map_of_rev_distinct [OF d] APIClient_def
        split: option.splits)
  ultimately show ?thesis by blast
qed

theorem request_init_headers_witness:
  "map_of (fetch_init (APIClient ''http://h/api/v1'') [(''method'', JStr ''GET'')]) ''headers''
     = Some (JObj [(''Content-Type'', JStr ''application/json'')])
   \<and> map_of (fetch_init (APIClient ''http://h/api/v1'')
        [(''headers'', JObj [(''Content-Type'', JStr ''text/plain'')])]) ''headers''
     = Some (JObj [(''Content-Type'', JStr ''text/plain'')])"
  using request_init_headers [of "[(''method'', JStr ''GET'')]" initial_app "mock_browser all_up"
      "''http://h/api/v1''" "''/x''"]
    request_init_headers [of "[(''headers'', JObj [(''Content-Type'', JStr ''text/plain'')])]"
      initial_app "mock_browser all_up" "''http://h/api/v1''" "''/x''"]
  by simp

section \<open>One refresh cycle: the paths through loadInitialData\<close>




















lemma fetched_append [simp]: "fetched (xs @ ys) = fetched xs @ fetched ys"
  by (induction xs rule: fetched.induct) simp_all

lemma notifications_append [simp]: "notifications (xs @ ys) = notifications xs @ notifications ys"
  by (induction xs rule: notifications.induct) simp_all

lemma network_append [simp]: "network (xs @ ys) = network xs @ network ys"
  by (induction xs rule: network.induct) simp_all

lemma fetched_rendered [simp]: "fetched (rendered name v) = []"
  by (simp add: rendered_def)

lemma notifications_rendered [simp]: "notifications (rendered name v) = []"
  by (simp add: rendered_def)

lemma network_rendered [simp]: "network (rendered name v) = []"
  by (simp add: rendered_def)

lemma urls_distinct [simp]:
  "dashboard_url api \<noteq> training_url api" "training_url api \<noteq> dashboard_url api"
  "dashboard_url api \<noteq> projections_url api" "projections_url api \<noteq> dashboard_url api"
  "training_url api \<noteq> projections_url api" "projections_url api \<noteq> training_url api"
  by (simp_all add: dashboard_url_def training_url_def projections_url_def)








end
